theory Spec2Isabelle
  imports Main
begin

unbundle bit_operations_syntax

section \<open>Permissions and roles (app/models.py)\<close>

text \<open>
  \<^verbatim>\<open>class Permission\<close>: five named integer constants, each a single bit.
  Python integers are unbounded, so masks are values of type \<open>int\<close>.
\<close>

definition FOLLOW :: int where "FOLLOW = 1"
definition COMMENT :: int where "COMMENT = 2"
definition WRITE :: int where "WRITE = 4"
definition MODERATE :: int where "MODERATE = 8"
definition ADMIN :: int where "ADMIN = 16"

text \<open>
  \<^verbatim>\<open>class Role(db.Model)\<close> with its columns \<open>name\<close>, \<open>default\<close> and \<open>permissions\<close>.
  The primary key is represented by the position of the row in the table (a list of
  rows in insertion order); the \<open>users\<close> relationship is not needed here.
  \<^verbatim>\<open>Role.__init__\<close> replaces a missing \<open>permissions\<close> by 0, so the mask is an \<open>int\<close>.
\<close>

record Role =
  name :: string
  default :: bool
  permissions :: int

text \<open>\<^verbatim>\<open>Role(name=r)\<close>: the constructor called with a name only.\<close>

definition Role_init :: "string \<Rightarrow> Role" where
  "Role_init r = \<lparr>name = r, default = False, permissions = 0\<rparr>"

text \<open>\<^verbatim>\<open>return self.permissions & perm == perm\<close>\<close>

definition has_permission :: "Role \<Rightarrow> int \<Rightarrow> bool" where
  "has_permission self perm = (permissions self AND perm = perm)"

text \<open>\<^verbatim>\<open>if not self.has_permission(perm): self.permissions += perm\<close>\<close>

definition add_permission :: "Role \<Rightarrow> int \<Rightarrow> Role" where
  "add_permission self perm =
     (if \<not> has_permission self perm
      then self\<lparr>permissions := permissions self + perm\<rparr>
      else self)"

text \<open>\<^verbatim>\<open>if self.has_permission(perm): self.permissions -= perm\<close>\<close>

definition remove_permission :: "Role \<Rightarrow> int \<Rightarrow> Role" where
  "remove_permission self perm =
     (if has_permission self perm
      then self\<lparr>permissions := permissions self - perm\<rparr>
      else self)"

definition reset_permissions :: "Role \<Rightarrow> Role" where
  "reset_permissions self = self\<lparr>permissions := 0\<rparr>"

subsection \<open>Queries on a table\<close>

text \<open>
  \<^verbatim>\<open>Model.query.filter_by(...).first()\<close>: the first row of the table that satisfies
  the filter, or \<open>None\<close>. \<open>first_index\<close> gives its position, which identifies the row.
\<close>

fun first_index :: "('a \<Rightarrow> bool) \<Rightarrow> 'a list \<Rightarrow> nat option" where
  "first_index P [] = None"
| "first_index P (x # xs) =
     (if P x then Some 0 else map_option Suc (first_index P xs))"

definition query_first :: "('a \<Rightarrow> bool) \<Rightarrow> 'a list \<Rightarrow> 'a option" where
  "query_first P t = map_option (\<lambda>i. t ! i) (first_index P t)"

text \<open>\<^verbatim>\<open>Role.query.filter_by(name=n).first()\<close>\<close>

definition filter_by_name_first :: "string \<Rightarrow> Role list \<Rightarrow> Role option" where
  "filter_by_name_first n t = query_first (\<lambda>x. name x = n) t"

text \<open>\<^verbatim>\<open>Role.query.filter_by(default=True).first()\<close>\<close>

definition filter_by_default_first :: "Role list \<Rightarrow> Role option" where
  "filter_by_default_first t = query_first default t"

subsection \<open>Seeding the roles\<close>

text \<open>
  The dictionary \<open>roles\<close> of \<^verbatim>\<open>Role.insert_roles\<close>, in its insertion order (the order in
  which the \<^verbatim>\<open>for r in roles\<close> loop visits the keys).
\<close>

definition roles :: "(string \<times> int list) list" where
  "roles =
     [(''user'', [FOLLOW, COMMENT]),
      (''moderator'', [FOLLOW, COMMENT, MODERATE]),
      (''admin'', [FOLLOW, COMMENT, WRITE, MODERATE, ADMIN])]"

definition default_role :: string where
  "default_role = ''user''"

text \<open>
  \<^verbatim>\<open>db.session.add(role)\<close> followed by the commit: a row that was found in the table is
  written back in place, a new one is appended.
\<close>

definition session_add :: "'a list \<Rightarrow> nat option \<Rightarrow> 'a \<Rightarrow> 'a list" where
  "session_add t found row =
     (case found of None \<Rightarrow> t @ [row] | Some i \<Rightarrow> t[i := row])"

text \<open>
  One iteration of the loop of \<^verbatim>\<open>insert_roles\<close>, for the key \<open>r\<close> whose entry is \<open>perms\<close>:
  find the role by name or create it, reset its mask, add each configured permission,
  set the default flag, and hand the role to the session.
\<close>

definition insert_role :: "Role list \<Rightarrow> string \<times> int list \<Rightarrow> Role list" where
  "insert_role t entry =
     (let r = fst entry;
          found = first_index (\<lambda>x. name x = r) t;
          role = (case found of None \<Rightarrow> Role_init r | Some i \<Rightarrow> t ! i);
          role = reset_permissions role;
          role = foldl add_permission role (snd entry);
          role = role\<lparr>default := (name role = default_role)\<rparr>
      in session_add t found role)"

definition insert_roles :: "Role list \<Rightarrow> Role list" where
  "insert_roles t = foldl insert_role t roles"


subsection \<open>The loop body as an update of the first row with a given name\<close>

text \<open>
  Two auxiliary functions for the proofs: \<open>configure\<close> is what one iteration does to the
  role it found or created, \<open>upsert\<close> applies a function to the first row with name \<open>r\<close>
  or appends the function's value on a new role. \<open>insert_role\<close> is shown to be
  \<open>upsert\<close> of \<open>configure\<close> below.
\<close>

definition configure :: "int list \<Rightarrow> Role \<Rightarrow> Role" where
  "configure perms x =
     (foldl add_permission (reset_permissions x) perms)\<lparr>default := (name x = default_role)\<rparr>"

fun upsert :: "string \<Rightarrow> (Role \<Rightarrow> Role) \<Rightarrow> Role list \<Rightarrow> Role list" where
  "upsert r f [] = [f (Role_init r)]"
| "upsert r f (x # xs) = (if name x = r then f x # xs else x # upsert r f xs)"

section \<open>Users (app/models.py)\<close>

text \<open>
  Python exceptions as values. \<open>BadData\<close> stands for \<^verbatim>\<open>itsdangerous.BadData\<close> and its
  subclasses (bad signature, expired signature, bad payload, bad header), which the
  clause \<^verbatim>\<open>except BadData\<close> catches alike.
\<close>

datatype exn = BadData | KeyError string | AttributeError string | TypeError string

text \<open>
  What \<^verbatim>\<open>json.loads\<close> can return as the payload of a token. Numbers with a fractional
  part are left out.
\<close>

datatype json =
  JNull | JBool bool | JInt int | JStr string | JList "json list" | JDict "(string \<times> json) list"

text \<open>
  \<^verbatim>\<open>class User(UserMixin, db.Model)\<close>. Times are seconds on the clock of
  \<^verbatim>\<open>datetime.utcnow\<close>. Besides the columns the record has the attribute \<open>_last_seen\<close>
  that \<^verbatim>\<open>User.seen\<close> assigns; it is an attribute of the Python object and no column
  of the table. The profile columns \<open>name\<close>, \<open>location\<close>, \<open>about_me\<close> and
  \<open>member_since\<close> play no part in the functions below and are left out.
\<close>

record User =
  user_id :: "int option"
  username :: "string option"
  email :: "string option"
  password_hash :: "string option"
  role :: "Role option"
  active :: bool
  last_seen :: "nat option"
  underscore_last_seen :: "nat option"

text \<open>
  \<^verbatim>\<open>User.__init__\<close>, after \<^verbatim>\<open>super().__init__(**kwargs)\<close> has stored the keyword arguments
  in \<open>self\<close>. \<open>admin_address\<close> is \<^verbatim>\<open>current_app.config["ADMIN_ADDRESS"]\<close> (unset when the
  environment variable is), \<open>t\<close> the table of roles.
\<close>

definition User_init :: "string option \<Rightarrow> Role list \<Rightarrow> User \<Rightarrow> User" where
  "User_init admin_address t self =
     (if role self = None then
        (let self = (if email self = admin_address
                     then self\<lparr>role := filter_by_name_first ''admin'' t\<rparr>
                     else self)
         in if role self = None
            then self\<lparr>role := filter_by_default_first t\<rparr>
            else self)
      else self)"

text \<open>The property \<open>password\<close>: the getter raises, the setter stores the hash only.\<close>

definition password :: "User \<Rightarrow> exn + string" where
  "password self = Inl (AttributeError ''Password is not stored.'')"

definition password_setter :: "(string \<Rightarrow> string) \<Rightarrow> User \<Rightarrow> string \<Rightarrow> User" where
  "password_setter generate_password_hash self pw =
     self\<lparr>password_hash := Some (generate_password_hash pw)\<rparr>"

subsection \<open>Tokens\<close>

text \<open>
  The serializer \<^verbatim>\<open>TimedJSONWebSignatureSerializer(SECRET_KEY, expiration)\<close> comes from
  a library; its two methods are parameters of the functions that call them:
  \<open>dumps expiration obj\<close> is the token for the payload \<open>obj\<close>, and \<open>loads token\<close> is the
  payload of a token or the exception the library raises for it at the time of the
  call. Tokens are of an arbitrary type \<open>'tok\<close>; encoding and decoding them as UTF-8 is
  the identity on them.
\<close>

text \<open>The JSON value of the primary key \<^verbatim>\<open>self.id\<close>, which is \<open>None\<close> before the first flush.\<close>

definition id_json :: "int option \<Rightarrow> json" where
  "id_json i = (case i of None \<Rightarrow> JNull | Some n \<Rightarrow> JInt n)"

text \<open>
  Python's \<^verbatim>\<open>v != self.id\<close> for a decoded JSON value \<open>v\<close>: \<open>None\<close> equals \<open>None\<close>, an integer
  equals the same integer, \<open>True\<close> and \<open>False\<close> equal 1 and 0; strings, lists and
  dictionaries equal no key.
\<close>

fun ne_id :: "json \<Rightarrow> int option \<Rightarrow> bool" where
  "ne_id JNull i = (i \<noteq> None)"
| "ne_id (JInt n) i = (i \<noteq> Some n)"
| "ne_id (JBool b) i = (i \<noteq> Some (if b then 1 else 0))"
| "ne_id (JStr s) i = True"
| "ne_id (JList xs) i = True"
| "ne_id (JDict d) i = True"

text \<open>\<^verbatim>\<open>data.get(k)\<close>: only a dictionary has the method.\<close>

fun dict_get :: "json \<Rightarrow> string \<Rightarrow> exn + json" where
  "dict_get (JDict d) k = Inr (case map_of d k of None \<Rightarrow> JNull | Some v \<Rightarrow> v)"
| "dict_get other k = Inl (AttributeError ''get'')"

text \<open>\<^verbatim>\<open>data[k]\<close> for a string \<open>k\<close>: a missing key raises \<open>KeyError\<close>.\<close>

fun getitem :: "json \<Rightarrow> string \<Rightarrow> exn + json" where
  "getitem (JDict d) k = (case map_of d k of None \<Rightarrow> Inl (KeyError k) | Some v \<Rightarrow> Inr v)"
| "getitem other k = Inl (TypeError ''subscript'')"

definition generate_activation_token :: "(nat \<Rightarrow> json \<Rightarrow> 'tok) \<Rightarrow> User \<Rightarrow> nat \<Rightarrow> 'tok" where
  "generate_activation_token dumps self expiration =
     dumps expiration (JDict [(''confirm'', id_json (user_id self))])"

definition generate_auth_token :: "(nat \<Rightarrow> json \<Rightarrow> 'tok) \<Rightarrow> User \<Rightarrow> nat \<Rightarrow> 'tok" where
  "generate_auth_token dumps self expiration =
     dumps expiration (JDict [(''id'', id_json (user_id self))])"

text \<open>
  \<^verbatim>\<open>User.activate\<close>: the result is the returned boolean with the user as the call leaves
  it, or the exception that escapes. \<^verbatim>\<open>db.session.add(self)\<close> registers the object with
  the session and changes none of its attributes.
\<close>

definition activate :: "('tok \<Rightarrow> exn + json) \<Rightarrow> User \<Rightarrow> 'tok \<Rightarrow> exn + (bool \<times> User)" where
  "activate loads self token =
     (case loads token of
        Inl e \<Rightarrow> (if e = BadData then Inr (False, self) else Inl e)
      | Inr data \<Rightarrow>
          (case dict_get data ''confirm'' of
             Inl e \<Rightarrow> Inl e
           | Inr v \<Rightarrow>
               if ne_id v (user_id self) then Inr (False, self)
               else Inr (True, self\<lparr>active := True\<rparr>)))"

text \<open>
  \<^verbatim>\<open>User.verify_auth_token\<close>; \<open>query_get\<close> is \<^verbatim>\<open>User.query.get\<close>, the lookup of a user by
  primary key in the object-relational mapper.
\<close>

definition verify_auth_token ::
  "('tok \<Rightarrow> exn + json) \<Rightarrow> (json \<Rightarrow> exn + User option) \<Rightarrow> 'tok \<Rightarrow> exn + User option" where
  "verify_auth_token loads query_get token =
     (case loads token of
        Inl e \<Rightarrow> (if e = BadData then Inr None else Inl e)
      | Inr data \<Rightarrow>
          (case getitem data ''id'' of
             Inl e \<Rightarrow> Inl e
           | Inr v \<Rightarrow> query_get v))"

text \<open>
  A serializer without cryptography, to run the token functions on concrete tokens:
  a token is the payload itself, or \<open>Garbled\<close>, which \<open>plain_loads\<close> rejects.
\<close>

datatype plain_token = Signed json | Garbled

definition plain_dumps :: "nat \<Rightarrow> json \<Rightarrow> plain_token" where
  "plain_dumps expiration obj = Signed obj"

fun plain_loads :: "plain_token \<Rightarrow> exn + json" where
  "plain_loads (Signed obj) = Inr obj"
| "plain_loads Garbled = Inl BadData"

text \<open>
  A lookup by primary key in a list of stored users, to run \<open>verify_auth_token\<close> on
  concrete inputs: an integer key finds the first user with that key, any other key
  finds nobody.
\<close>

fun plain_query_get :: "User list \<Rightarrow> json \<Rightarrow> exn + User option" where
  "plain_query_get tbl (JInt i) = Inr (find (\<lambda>u. user_id u = Some i) tbl)"
| "plain_query_get tbl other = Inr None"

text \<open>
  Two stored users, as \<^verbatim>\<open>add_user\<close> of tests/test_client.py creates them, for the
  evaluated instances below.
\<close>

definition brian :: User where
  "brian = \<lparr>user_id = Some 1, username = Some ''brian'', email = Some ''brian@example.com'',
     password_hash = Some ''hash-of-abc'', role = None, active = False, last_seen = Some 100,
     underscore_last_seen = None\<rparr>"

definition bob :: User where
  "bob = \<lparr>user_id = Some 2, username = Some ''bob'', email = Some ''bob@example.com'',
     password_hash = Some ''hash-of-xyz'', role = None, active = False, last_seen = Some 100,
     underscore_last_seen = None\<rparr>"

subsection \<open>Last seen\<close>

text \<open>
  The row that a flush writes for a user: the values of the mapped columns. The
  attribute \<open>_last_seen\<close> is not among them.
\<close>

definition row_of :: "User \<Rightarrow> User" where
  "row_of self = self\<lparr>underscore_last_seen := None\<rparr>"

text \<open>
  \<^verbatim>\<open>db.session.add(self); db.session.commit()\<close> for a user. A user whose primary key
  has a row in the table updates that row. Any other user is inserted: under its own
  key when it has one, under the next key otherwise; on insertion the column default
  \<^verbatim>\<open>default=datetime.utcnow\<close> fills a missing \<open>last_seen\<close>.
\<close>

definition next_id :: "User list \<Rightarrow> int" where
  "next_id tbl = 1 + foldl max 0 (map (\<lambda>u. case user_id u of None \<Rightarrow> 0 | Some i \<Rightarrow> i) tbl)"

definition insert_row :: "nat \<Rightarrow> User list \<Rightarrow> User \<Rightarrow> User list \<times> User" where
  "insert_row now tbl self =
     (let self = self\<lparr>last_seen := (case last_seen self of None \<Rightarrow> Some now
                                       | Some t \<Rightarrow> Some t)\<rparr>
      in (tbl @ [row_of self], self))"

definition session_commit :: "nat \<Rightarrow> User list \<Rightarrow> User \<Rightarrow> User list \<times> User" where
  "session_commit now tbl self =
     (case user_id self of
        Some i \<Rightarrow>
          (if Some i \<in> set (map user_id tbl)
           then (map (\<lambda>row. if user_id row = Some i then row_of self else row) tbl, self)
           else insert_row now tbl self)
      | None \<Rightarrow> insert_row now tbl (self\<lparr>user_id := Some (next_id tbl)\<rparr>))"

text \<open>
  \<^verbatim>\<open>User.seen\<close>: \<^verbatim>\<open>self._last_seen = datetime.utcnow()\<close>, then add and commit. \<open>now\<close> is
  the time of the call, \<open>tbl\<close> the table of users.
\<close>

definition seen :: "nat \<Rightarrow> User list \<Rightarrow> User \<Rightarrow> User list \<times> User" where
  "seen now tbl self = session_commit now tbl (self\<lparr>underscore_last_seen := Some now\<rparr>)"

section \<open>Comments (app/models.py)\<close>

text \<open>
  \<^verbatim>\<open>class Comment(db.Model)\<close> with the columns that \<^verbatim>\<open>on_change_body\<close> reads and writes
  and the creation time. A column that has no value yet is \<open>None\<close>.
\<close>

record Comment =
  body :: "string option"
  body_html :: "string option"
  timestamp :: "nat option"
  edit_time :: "nat option"

text \<open>
  \<^verbatim>\<open>str.strip()\<close>: white space is removed at both ends. A \<open>char\<close> is a code point
  below 256; among these \<^verbatim>\<open>str.isspace\<close> holds for tab, line feed, vertical tab, form
  feed and carriage return (9 to 13), the separators 28 to 31, the space (32), the next
  line control (133) and the no-break space (160), and for no other.
\<close>

definition is_space :: "char \<Rightarrow> bool" where
  "is_space c = (of_char c \<in> {9, 10, 11, 12, 13, 28, 29, 30, 31, 32, 133, 160 :: nat})"

definition strip :: "string \<Rightarrow> string" where
  "strip s = rev (dropWhile is_space (rev (dropWhile is_space s)))"

text \<open>
  \<^verbatim>\<open>re.compile(r"\n+").sub("</p><p>", s)\<close>: every maximal run of line feeds becomes one
  \<open></p><p>\<close>. The flag says whether the previous character was a line feed.
\<close>

fun sub_newlines :: "bool \<Rightarrow> string \<Rightarrow> string" where
  "sub_newlines in_run [] = []"
| "sub_newlines in_run (c # cs) =
     (if c = CHR 0x0A
      then (if in_run then [] else ''</p><p>'') @ sub_newlines True cs
      else c # sub_newlines False cs)"

text \<open>
  \<^verbatim>\<open>Comment.on_change_body(target, value, oldvalue, initiator)\<close>. The functions
  \<^verbatim>\<open>bleach.clean(_, tags=[])\<close> and \<^verbatim>\<open>bleach.linkify\<close> come from a library and are the
  parameters \<open>clean\<close> and \<open>linkify\<close>; \<open>now\<close> is \<^verbatim>\<open>datetime.utcnow()\<close>. A \<open>datetime\<close> is
  always true in a condition, so \<^verbatim>\<open>not target.edit_time\<close> holds exactly when the column
  has no value.
\<close>

definition on_change_body ::
  "(string \<Rightarrow> string) \<Rightarrow> (string \<Rightarrow> string) \<Rightarrow> nat \<Rightarrow> Comment \<Rightarrow> string \<Rightarrow> Comment" where
  "on_change_body clean linkify now target val =
     (let target = (if edit_time target = None
                    then target\<lparr>edit_time := Some now\<rparr>
                    else target)
      in target\<lparr>body_html :=
           Some (''<p>'' @ linkify (sub_newlines False (clean (strip val))) @ ''</p>'')\<rparr>)"

text \<open>
  Assigning \<^verbatim>\<open>comment.body = val\<close>: the listener registered by
  \<^verbatim>\<open>db.event.listen(Comment.body, "set", Comment.on_change_body)\<close> runs, then the
  attribute takes the value.
\<close>

definition set_body ::
  "(string \<Rightarrow> string) \<Rightarrow> (string \<Rightarrow> string) \<Rightarrow> nat \<Rightarrow> Comment \<Rightarrow> string \<Rightarrow> Comment" where
  "set_body clean linkify now target val =
     (on_change_body clean linkify now target val)\<lparr>body := Some val\<rparr>"

text \<open>
  \<^verbatim>\<open>Comment(body=val, ...)\<close>: a new object, whose columns have no value, is assigned its
  body.
\<close>

definition Comment_init ::
  "(string \<Rightarrow> string) \<Rightarrow> (string \<Rightarrow> string) \<Rightarrow> nat \<Rightarrow> string \<Rightarrow> Comment" where
  "Comment_init clean linkify now val =
     set_body clean linkify now
       \<lparr>body = None, body_html = None, timestamp = None, edit_time = None\<rparr> val"

text \<open>
  The insertion of a new comment at time \<open>now\<close>: the column default
  \<^verbatim>\<open>default=datetime.utcnow\<close> fills a missing \<open>timestamp\<close>.
\<close>

definition insert_comment :: "nat \<Rightarrow> Comment \<Rightarrow> Comment" where
  "insert_comment now c =
     c\<lparr>timestamp := (case timestamp c of None \<Rightarrow> Some now | Some t \<Rightarrow> Some t)\<rparr>"

section \<open>Properties of the permission operations\<close>

lemma and_exp_eq_exp_iff_bit: "((m::int) AND 2 ^ k = 2 ^ k) = bit m k"
proof
  assume "m AND 2 ^ k = 2 ^ k"
  then have "bit (m AND 2 ^ k) k = bit ((2::int) ^ k) k"
    by simp
  then show "bit m k"
    by (simp add: bit_and_iff bit_exp_iff)
next
  assume "bit m k"
  then show "m AND 2 ^ k = 2 ^ k"
    by (intro bit_eqI) (auto simp add: bit_and_iff bit_exp_iff)
qed

lemma has_permission_bit: "has_permission self (2 ^ k) = bit (permissions self) k"
  by (simp add: has_permission_def and_exp_eq_exp_iff_bit)

lemma add_permission_set_bit:
  "add_permission self (2 ^ k) = self\<lparr>permissions := set_bit k (permissions self)\<rparr>"
proof (cases "bit (permissions self) k")
  case True
  then have "set_bit k (permissions self) = permissions self"
    by (simp add: set_bit_eq)
  with True show ?thesis
    by (simp add: add_permission_def has_permission_bit)
next
  case False
  then show ?thesis
    by (simp add: add_permission_def has_permission_bit set_bit_eq)
qed

lemma remove_permission_unset_bit:
  "remove_permission self (2 ^ k) = self\<lparr>permissions := unset_bit k (permissions self)\<rparr>"
proof (cases "bit (permissions self) k")
  case True
  then show ?thesis
    by (simp add: remove_permission_def has_permission_bit unset_bit_eq)
next
  case False
  then have "unset_bit k (permissions self) = permissions self"
    by (simp add: unset_bit_eq)
  with False show ?thesis
    by (simp add: remove_permission_def has_permission_bit)
qed

lemma set_bit_twice: "set_bit k (set_bit k (m::int)) = set_bit k m"
  by (rule bit_eqI) (auto simp add: bit_set_bit_iff)

lemma unset_bit_twice: "unset_bit k (unset_bit k (m::int)) = unset_bit k m"
  by (rule bit_eqI) (auto simp add: bit_unset_bit_iff)

lemma Permission_bits:
  "FOLLOW = 2 ^ 0" "COMMENT = 2 ^ 1" "WRITE = 2 ^ 2" "MODERATE = 2 ^ 3" "ADMIN = 2 ^ 4"
  by (simp_all add: FOLLOW_def COMMENT_def WRITE_def MODERATE_def ADMIN_def)

text \<open>
  The operations add and subtract; they act on one bit only when the argument is a
  single bit. On the mask 1 the argument 3 (FOLLOW and COMMENT at once) gives 4.
\<close>

lemma add_permission_two_bits:
  "permissions (add_permission \<lparr>name = ''user'', default = True, permissions = 1\<rparr> 3) = 4"
  by (simp add: add_permission_def has_permission_def)

text \<open>
  Claim C7. A permission value is a single bit \<open>2 ^ k\<close> (the constants of \<open>Permission\<close> are
  \<open>2 ^ 0\<close> to \<open>2 ^ 4\<close>). For every role and every such value, \<open>add_permission\<close> sets bit
  \<open>k\<close> of the mask, after it \<open>has_permission\<close> holds, and applying it twice is the same as
  applying it once; \<open>remove_permission\<close> clears bit \<open>k\<close>, after it \<open>has_permission\<close> fails,
  and it is idempotent as well; neither changes any other bit of the mask, nor the name or
  the default flag of the role.
\<close>

theorem add_remove_permission_bit:
  "has_permission (add_permission self (2 ^ k)) (2 ^ k)
   \<and> bit (permissions (add_permission self (2 ^ k))) k
   \<and> add_permission (add_permission self (2 ^ k)) (2 ^ k) = add_permission self (2 ^ k)
   \<and> (\<forall>j. j \<noteq> k \<longrightarrow>
         bit (permissions (add_permission self (2 ^ k))) j = bit (permissions self) j)
   \<and> name (add_permission self (2 ^ k)) = name self
   \<and> default (add_permission self (2 ^ k)) = default self
   \<and> \<not> has_permission (remove_permission self (2 ^ k)) (2 ^ k)
   \<and> \<not> bit (permissions (remove_permission self (2 ^ k))) k
   \<and> remove_permission (remove_permission self (2 ^ k)) (2 ^ k) = remove_permission self (2 ^ k)
   \<and> (\<forall>j. j \<noteq> k \<longrightarrow>
         bit (permissions (remove_permission self (2 ^ k))) j = bit (permissions self) j)
   \<and> name (remove_permission self (2 ^ k)) = name self
   \<and> default (remove_permission self (2 ^ k)) = default self"
proof -
  have add_twice: "add_permission (add_permission self (2 ^ k)) (2 ^ k) = add_permission self (2 ^ k)"
    by (simp add: add_permission_set_bit set_bit_twice)
  have remove_twice:
    "remove_permission (remove_permission self (2 ^ k)) (2 ^ k) = remove_permission self (2 ^ k)"
    by (simp add: remove_permission_unset_bit unset_bit_twice)
  have add_bits: "bit (permissions (add_permission self (2 ^ k))) j = (bit (permissions self) j \<or> j = k)" for j
    by (auto simp add: add_permission_set_bit bit_set_bit_iff)
  have remove_bits:
    "bit (permissions (remove_permission self (2 ^ k))) j = (bit (permissions self) j \<and> j \<noteq> k)" for j
    by (auto simp add: remove_permission_unset_bit bit_unset_bit_iff)
  show ?thesis
    using add_twice remove_twice add_bits remove_bits
    by (simp add: has_permission_bit add_permission_set_bit remove_permission_unset_bit)
qed

theorem add_remove_permission_bit_witness:
  "bit (permissions (add_permission \<lparr>name = ''user'', default = True, permissions = 3\<rparr> (2 ^ 3))) 1
     = bit (permissions \<lparr>name = ''user'', default = True, permissions = 3\<rparr>) 1
   \<and> bit (permissions (remove_permission \<lparr>name = ''user'', default = True, permissions = 3\<rparr> (2 ^ 0))) 1
     = bit (permissions \<lparr>name = ''user'', default = True, permissions = 3\<rparr>) 1
   \<and> permissions (add_permission \<lparr>name = ''user'', default = True, permissions = 3\<rparr> (2 ^ 3)) = 11
   \<and> permissions (remove_permission \<lparr>name = ''user'', default = True, permissions = 3\<rparr> (2 ^ 0)) = 2"
proof -
  have neq: "(1::nat) \<noteq> 3" "(1::nat) \<noteq> 0"
    by simp_all
  have "permissions (add_permission \<lparr>name = ''user'', default = True, permissions = 3\<rparr> (2 ^ 3)) = 11"
    by (simp add: add_permission_def has_permission_def)
  moreover have "permissions (remove_permission \<lparr>name = ''user'', default = True, permissions = 3\<rparr> (2 ^ 0)) = 2"
    by (simp add: remove_permission_def has_permission_def)
  ultimately show ?thesis
    using add_remove_permission_bit [of "\<lparr>name = ''user'', default = True, permissions = 3\<rparr>" 3]
      add_remove_permission_bit [of "\<lparr>name = ''user'', default = True, permissions = 3\<rparr>" 0] neq
    by blast
qed


section \<open>Properties of the seeding of roles\<close>

lemma name_add_permission: "name (add_permission x p) = name x"
  by (simp add: add_permission_def)

lemma name_foldl_add_permission: "name (foldl add_permission x ps) = name x"
  by (induction ps arbitrary: x) (simp_all add: name_add_permission)

lemma insert_role_upsert: "insert_role t (r, perms) = upsert r (configure perms) t"
proof (induction t)
  case Nil
  show ?case
    by (simp add: insert_role_def session_add_def configure_def name_foldl_add_permission
        reset_permissions_def Let_def)
next
  case (Cons x xs)
  show ?case
  proof (cases "name x = r")
    case True
    then show ?thesis
      by (simp add: insert_role_def session_add_def configure_def name_foldl_add_permission
          reset_permissions_def Let_def)
  next
    case False
    with Cons show ?thesis
      by (cases "first_index (\<lambda>x. name x = r) xs")
        (simp_all add: insert_role_def session_add_def Let_def)
  qed
qed

lemma query_first_find: "query_first P t = find P t"
proof (induction t)
  case Nil
  show ?case by (simp add: query_first_def)
next
  case (Cons x xs)
  then show ?case
    by (cases "first_index P xs") (auto simp add: query_first_def)
qed

lemma configure_user: "configure [FOLLOW, COMMENT] x = x\<lparr>default := (name x = ''user''), permissions := 3\<rparr>"
  by (simp add: configure_def reset_permissions_def add_permission_def has_permission_def
      FOLLOW_def COMMENT_def default_role_def)

lemma configure_moderator:
  "configure [FOLLOW, COMMENT, MODERATE] x = x\<lparr>default := (name x = ''user''), permissions := 11\<rparr>"
  by (simp add: configure_def reset_permissions_def add_permission_def has_permission_def
      FOLLOW_def COMMENT_def MODERATE_def default_role_def)

lemma configure_admin:
  "configure [FOLLOW, COMMENT, WRITE, MODERATE, ADMIN] x = x\<lparr>default := (name x = ''user''), permissions := 31\<rparr>"
  by (simp add: configure_def reset_permissions_def add_permission_def has_permission_def
      FOLLOW_def COMMENT_def WRITE_def MODERATE_def ADMIN_def default_role_def)

lemma find_upsert_same:
  "(\<And>x. name (f x) = name x) \<Longrightarrow>
   find (\<lambda>x. name x = r) (upsert r f t) =
     Some (f (case find (\<lambda>x. name x = r) t of None \<Rightarrow> Role_init r | Some x \<Rightarrow> x))"
  by (induction t) (simp_all add: Role_init_def)

lemma find_upsert_other:
  "(\<And>x. name (f x) = name x) \<Longrightarrow> n \<noteq> r \<Longrightarrow>
   find (\<lambda>x. name x = n) (upsert r f t) = find (\<lambda>x. name x = n) t"
  by (induction t) (simp_all add: Role_init_def)

lemma upsert_fixed:
  "find (\<lambda>x. name x = r) t = Some y \<Longrightarrow> f y = y \<Longrightarrow> upsert r f t = t"
  by (induction t) (auto split: if_splits)


lemma insert_roles_upserts:
  "insert_roles t =
     upsert ''admin'' (configure [FOLLOW, COMMENT, WRITE, MODERATE, ADMIN])
       (upsert ''moderator'' (configure [FOLLOW, COMMENT, MODERATE])
         (upsert ''user'' (configure [FOLLOW, COMMENT]) t))"
  by (simp add: insert_roles_def roles_def insert_role_upsert)


lemma name_configure: "name (configure perms x) = name x"
  by (simp add: configure_def name_foldl_add_permission reset_permissions_def)

lemma find_admin:
  "\<exists>z. find (\<lambda>x. name x = ''admin'') (insert_roles t) =
     Some (configure [FOLLOW, COMMENT, WRITE, MODERATE, ADMIN] z)"
  by (auto simp add: insert_roles_upserts find_upsert_same name_configure)

lemma find_moderator:
  "\<exists>z. find (\<lambda>x. name x = ''moderator'') (insert_roles t) =
     Some (configure [FOLLOW, COMMENT, MODERATE] z)"
  by (auto simp add: insert_roles_upserts find_upsert_same find_upsert_other name_configure)

lemma find_user:
  "\<exists>z. find (\<lambda>x. name x = ''user'') (insert_roles t) = Some (configure [FOLLOW, COMMENT] z)"
  by (auto simp add: insert_roles_upserts find_upsert_same find_upsert_other name_configure)

lemma insert_roles_twice: "insert_roles (insert_roles t) = insert_roles t"
proof -
  let ?s = "insert_roles t"
  obtain u where u: "find (\<lambda>x. name x = ''user'') ?s = Some (configure [FOLLOW, COMMENT] u)"
    using find_user by blast
  obtain m where m: "find (\<lambda>x. name x = ''moderator'') ?s = Some (configure [FOLLOW, COMMENT, MODERATE] m)"
    using find_moderator by blast
  obtain a where a: "find (\<lambda>x. name x = ''admin'') ?s =
      Some (configure [FOLLOW, COMMENT, WRITE, MODERATE, ADMIN] a)"
    using find_admin by blast
  have 1: "upsert ''user'' (configure [FOLLOW, COMMENT]) ?s = ?s"
    by (rule upsert_fixed [OF u]) (simp add: configure_user)
  have 2: "upsert ''moderator'' (configure [FOLLOW, COMMENT, MODERATE]) ?s = ?s"
    by (rule upsert_fixed [OF m]) (simp add: configure_moderator)
  have 3: "upsert ''admin'' (configure [FOLLOW, COMMENT, WRITE, MODERATE, ADMIN]) ?s = ?s"
    by (rule upsert_fixed [OF a]) (simp add: configure_admin)
  show ?thesis
    by (subst insert_roles_upserts) (simp only: 1 2 3)
qed

lemma bit_31: "bit (31::int) k = (k < 5)"
proof -
  have "(31::int) = mask 5"
    by (simp add: mask_eq_exp_minus_1)
  then show ?thesis
    by (simp only: bit_mask_iff) simp
qed

text \<open>
  Claim C1. For every prior table of roles \<open>t\<close>, after \<open>insert_roles\<close> the role that the
  query by the name \<open>admin\<close> returns has every defined permission (FOLLOW, COMMENT,
  WRITE, MODERATE, ADMIN), its mask is exactly their sum, and the bits set in it are
  exactly the bits 0 to 4, so no bit outside the defined set survives. The roles
  \<open>moderator\<close> and \<open>user\<close> have exactly their configured masks as well, and running the
  routine again changes nothing.
\<close>

theorem insert_roles_masks:
  "(\<exists>admin. filter_by_name_first ''admin'' (insert_roles t) = Some admin
      \<and> has_permission admin FOLLOW \<and> has_permission admin COMMENT
      \<and> has_permission admin WRITE \<and> has_permission admin MODERATE
      \<and> has_permission admin ADMIN
      \<and> permissions admin = FOLLOW + COMMENT + WRITE + MODERATE + ADMIN
      \<and> (\<forall>k. bit (permissions admin) k = (k < 5)))
   \<and> map_option permissions (filter_by_name_first ''moderator'' (insert_roles t))
       = Some (FOLLOW + COMMENT + MODERATE)
   \<and> map_option permissions (filter_by_name_first ''user'' (insert_roles t))
       = Some (FOLLOW + COMMENT)
   \<and> insert_roles (insert_roles t) = insert_roles t"
proof -
  obtain u where u: "find (\<lambda>x. name x = ''user'') (insert_roles t) = Some (configure [FOLLOW, COMMENT] u)"
    using find_user by blast
  obtain m where m: "find (\<lambda>x. name x = ''moderator'') (insert_roles t) =
      Some (configure [FOLLOW, COMMENT, MODERATE] m)"
    using find_moderator by blast
  obtain a where a: "find (\<lambda>x. name x = ''admin'') (insert_roles t) =
      Some (configure [FOLLOW, COMMENT, WRITE, MODERATE, ADMIN] a)"
    using find_admin by blast
  have admin: "\<exists>admin. filter_by_name_first ''admin'' (insert_roles t) = Some admin
      \<and> has_permission admin FOLLOW \<and> has_permission admin COMMENT
      \<and> has_permission admin WRITE \<and> has_permission admin MODERATE
      \<and> has_permission admin ADMIN
      \<and> permissions admin = FOLLOW + COMMENT + WRITE + MODERATE + ADMIN
      \<and> (\<forall>k. bit (permissions admin) k = (k < 5))"
    unfolding filter_by_name_first_def query_first_find a configure_admin
    by (simp add: has_permission_def FOLLOW_def COMMENT_def WRITE_def MODERATE_def ADMIN_def bit_31)
  have moderator: "map_option permissions (filter_by_name_first ''moderator'' (insert_roles t))
       = Some (FOLLOW + COMMENT + MODERATE)"
    unfolding filter_by_name_first_def query_first_find m configure_moderator
    by (simp add: FOLLOW_def COMMENT_def MODERATE_def)
  have user: "map_option permissions (filter_by_name_first ''user'' (insert_roles t))
       = Some (FOLLOW + COMMENT)"
    unfolding filter_by_name_first_def query_first_find u configure_user
    by (simp add: FOLLOW_def COMMENT_def)
  show ?thesis
    using admin moderator user insert_roles_twice by blast
qed

lemma map_name_upsert:
  "(\<And>x. name (f x) = name x) \<Longrightarrow>
   map name (upsert r f t) = (if r \<in> set (map name t) then map name t else map name t @ [r])"
  by (induction t) (auto simp add: Role_init_def)

lemma upsert_rows:
  "distinct (map name t) \<Longrightarrow> (\<And>x. name (f x) = name x) \<Longrightarrow> y \<in> set (upsert r f t) \<Longrightarrow>
   (name y = r \<and> (\<exists>x. y = f x)) \<or> (name y \<noteq> r \<and> y \<in> set t)"
proof (induction t)
  case Nil
  then show ?case by (auto simp add: Role_init_def)
next
  case (Cons x xs)
  then show ?case
    by (cases "name x = r") (auto simp add: image_iff)
qed

lemma filter_unique:
  "distinct (map f xs) \<Longrightarrow> a \<in> set (map f xs) \<Longrightarrow> \<exists>y. filter (\<lambda>x. f x = a) xs = [y] \<and> find (\<lambda>x. f x = a) xs = Some y"
proof (induction xs)
  case Nil
  then show ?case by simp
next
  case (Cons x xs)
  show ?case
  proof (cases "f x = a")
    case True
    with Cons.prems have "\<forall>z\<in>set xs. f z \<noteq> a"
      by (auto simp add: image_iff)
    then have "filter (\<lambda>x. f x = a) xs = []"
      by (simp add: filter_empty_conv)
    with True show ?thesis by simp
  next
    case False
    with Cons show ?thesis by auto
  qed
qed


lemma distinct_upsert:
  "(\<And>x. name (f x) = name x) \<Longrightarrow> distinct (map name t) \<Longrightarrow> distinct (map name (upsert r f t))"
  by (simp add: map_name_upsert)

lemma default_configure: "default (configure perms x) = (name x = ''user'')"
  by (simp add: configure_def default_role_def)

text \<open>
  Claim C8, amended. \<open>insert_roles\<close> writes the default flag of the three roles of its
  table only. For every prior table in which the names are unique (the column is
  declared unique) and no role with a name other than \<open>user\<close>, \<open>moderator\<close> and \<open>admin\<close>
  is flagged as default, after \<open>insert_roles\<close> exactly one row has the default flag, and it
  is the role named \<open>user\<close>.
\<close>

theorem insert_roles_default:
  assumes names: "distinct (map name t)"
    and others: "\<forall>x\<in>set t. default x \<longrightarrow> name x \<in> {''user'', ''moderator'', ''admin''}"
  shows "\<exists>u. filter default (insert_roles t) = [u] \<and> name u = ''user''
           \<and> filter_by_name_first ''user'' (insert_roles t) = Some u"
proof -
  let ?t1 = "upsert ''user'' (configure [FOLLOW, COMMENT]) t"
  let ?t2 = "upsert ''moderator'' (configure [FOLLOW, COMMENT, MODERATE]) ?t1"
  let ?t3 = "upsert ''admin'' (configure [FOLLOW, COMMENT, WRITE, MODERATE, ADMIN]) ?t2"
  have d1: "distinct (map name ?t1)"
    using names by (simp add: distinct_upsert name_configure)
  then have d2: "distinct (map name ?t2)"
    by (simp add: distinct_upsert name_configure)
  then have d3: "distinct (map name ?t3)"
    by (simp add: distinct_upsert name_configure)
  have flag: "default y = (name y = ''user'')" if y: "y \<in> set ?t3" for y
  proof -
    from upsert_rows [OF d2 name_configure y]
    consider x where "name y = ''admin''" "y = configure [FOLLOW, COMMENT, WRITE, MODERATE, ADMIN] x"
      | "name y \<noteq> ''admin''" "y \<in> set ?t2"
      by blast
    then show ?thesis
    proof cases
      case 1
      then show ?thesis
        using name_configure [of "[FOLLOW, COMMENT, WRITE, MODERATE, ADMIN]" x]
        by (simp add: default_configure)
    next
      case 2
      from upsert_rows [OF d1 name_configure 2(2)]
      consider x where "name y = ''moderator''" "y = configure [FOLLOW, COMMENT, MODERATE] x"
        | "name y \<noteq> ''moderator''" "y \<in> set ?t1"
        by blast
      then show ?thesis
      proof cases
        case 1
        then show ?thesis
          using name_configure [of "[FOLLOW, COMMENT, MODERATE]" x]
          by (simp add: default_configure)
      next
        case moderator: 2
        from upsert_rows [OF names name_configure moderator(2)]
        consider x where "name y = ''user''" "y = configure [FOLLOW, COMMENT] x"
          | "name y \<noteq> ''user''" "y \<in> set t"
          by blast
        then show ?thesis
        proof cases
          case 1
          then show ?thesis
            using name_configure [of "[FOLLOW, COMMENT]" x]
            by (simp add: default_configure)
        next
          case user: 2
          with others 2(1) moderator(1) show ?thesis
            by auto
        qed
      qed
    qed
  qed
  have "''user'' \<in> set (map name ?t1)"
    by (simp add: map_name_upsert name_configure)
  then have "''user'' \<in> set (map name ?t2)"
    by (simp add: map_name_upsert name_configure)
  then have "''user'' \<in> set (map name ?t3)"
    by (simp add: map_name_upsert name_configure)
  from filter_unique [OF d3 this]
  obtain u where u: "filter (\<lambda>x. name x = ''user'') ?t3 = [u]"
    "find (\<lambda>x. name x = ''user'') ?t3 = Some u"
    by blast
  have "filter default ?t3 = filter (\<lambda>x. name x = ''user'') ?t3"
    by (rule filter_cong) (simp_all add: flag)
  moreover have "name u = ''user''"
    using u(2) by (auto simp add: find_Some_iff)
  ultimately show ?thesis
    using u by (simp add: insert_roles_upserts filter_by_name_first_def query_first_find)
qed

theorem insert_roles_default_witness:
  "\<exists>u. filter default (insert_roles
       [\<lparr>name = ''admin'', default = True, permissions = 255\<rparr>,
        \<lparr>name = ''guest'', default = False, permissions = 1\<rparr>]) = [u] \<and> name u = ''user''
      \<and> filter_by_name_first ''user'' (insert_roles
       [\<lparr>name = ''admin'', default = True, permissions = 255\<rparr>,
        \<lparr>name = ''guest'', default = False, permissions = 1\<rparr>]) = Some u"
  by (rule insert_roles_default) simp_all

text \<open>
  Claim C8 as stated fails on a prior table that holds a role of another name with the
  default flag: the loop never visits it, and two rows are flagged afterwards.
\<close>

theorem insert_roles_default_counterexample:
  "map name (filter default (insert_roles [\<lparr>name = ''guest'', default = True, permissions = 0\<rparr>]))
     = [''guest'', ''user'']
   \<and> length (filter default (insert_roles [\<lparr>name = ''guest'', default = True, permissions = 0\<rparr>])) = 2"
  by (simp add: insert_roles_def roles_def insert_role_def session_add_def Role_init_def
      reset_permissions_def add_permission_def has_permission_def default_role_def
      FOLLOW_def COMMENT_def WRITE_def MODERATE_def ADMIN_def)


section \<open>Properties of users and tokens\<close>

text \<open>
  Claim C5. Reading the property \<open>password\<close> fails for every user, also right after a
  password has been set: the getter raises \<open>AttributeError\<close> (the access error of the
  specification), and the setter stores nothing but the hash.
\<close>

theorem password_not_readable:
  "password self = Inl (AttributeError ''Password is not stored.'')
   \<and> password (password_setter generate_password_hash self pw)
       = Inl (AttributeError ''Password is not stored.'')
   \<and> password_setter generate_password_hash self pw
       = self\<lparr>password_hash := Some (generate_password_hash pw)\<rparr>"
  by (simp add: password_def password_setter_def)

text \<open>
  Claim C10. A user created without a role, whose email is the configured administrator
  address, at a time when the query for the role named \<open>admin\<close> finds nothing: the user
  gets what the query for the default role returns. That is a role flagged as default
  whenever the table has one, so the user is not left without a role then.
\<close>

theorem User_init_admin_address_without_admin_role:
  assumes "role self = None"
    and "email self = admin_address"
    and "filter_by_name_first ''admin'' t = None"
  shows "role (User_init admin_address t self) = filter_by_default_first t
    \<and> ((\<exists>x\<in>set t. default x) \<longrightarrow>
         (\<exists>d. role (User_init admin_address t self) = Some d \<and> default d \<and> d \<in> set t))"
proof -
  have r: "role (User_init admin_address t self) = filter_by_default_first t"
    using assms by (simp add: User_init_def)
  have "\<exists>d. filter_by_default_first t = Some d \<and> default d \<and> d \<in> set t"
    if "\<exists>x\<in>set t. default x"
  proof (cases "find default t")
    case None
    with that show ?thesis
      by (simp add: find_None_iff)
  next
    case (Some d)
    then have "default d \<and> d \<in> set t"
      by (auto simp add: find_Some_iff)
    with Some show ?thesis
      by (simp add: filter_by_default_first_def query_first_find)
  qed
  with r show ?thesis
    by simp
qed

theorem User_init_admin_address_without_admin_role_witness:
  "role (User_init (Some ''brian@example.com'')
      [\<lparr>name = ''moderator'', default = False, permissions = 11\<rparr>,
       \<lparr>name = ''user'', default = True, permissions = 3\<rparr>] brian)
   = Some \<lparr>name = ''user'', default = True, permissions = 3\<rparr>"
proof -
  let ?t = "[\<lparr>name = ''moderator'', default = False, permissions = 11\<rparr>,
       \<lparr>name = ''user'', default = True, permissions = 3\<rparr>]"
  have h1: "role brian = None" and h2: "email brian = Some ''brian@example.com''"
    by (simp_all add: brian_def)
  have h3: "filter_by_name_first ''admin'' ?t = None"
    by (simp add: filter_by_name_first_def query_first_def)
  have "filter_by_default_first ?t = Some \<lparr>name = ''user'', default = True, permissions = 3\<rparr>"
    by (simp add: filter_by_default_first_def query_first_def)
  with User_init_admin_address_without_admin_role [OF h1 h2 h3] show ?thesis
    by simp
qed

text \<open>
  Claim C3. For every user \<open>u\<close>: a token issued for \<open>u\<close> that the serializer accepts
  (valid signature, not expired) makes \<open>activate\<close> return \<open>True\<close> and leaves \<open>u\<close> active; an
  accepted token issued for a user \<open>v\<close> with another primary key makes it return \<open>False\<close>
  and leaves \<open>u\<close> as it was; and a token for which the serializer raises \<open>BadData\<close>
  (malformed, tampered or expired) makes it return \<open>False\<close>, with \<open>u\<close> as it was and no
  exception. Tokens are text that UTF-8 can encode.
\<close>

theorem activate_token:
  "(loads (generate_activation_token dumps u e) = Inr (JDict [(''confirm'', id_json (user_id u))])
      \<longrightarrow> activate loads u (generate_activation_token dumps u e)
            = Inr (True, u\<lparr>active := True\<rparr>))
   \<and> (loads (generate_activation_token dumps v e) = Inr (JDict [(''confirm'', id_json (user_id v))])
        \<and> user_id v \<noteq> user_id u
      \<longrightarrow> activate loads u (generate_activation_token dumps v e) = Inr (False, u))
   \<and> (loads token = Inl BadData \<longrightarrow> activate loads u token = Inr (False, u))"
  by (auto simp add: activate_def id_json_def split: option.splits)

theorem activate_token_witness:
  "activate plain_loads brian (generate_activation_token plain_dumps brian 3600)
     = Inr (True, brian\<lparr>active := True\<rparr>)
   \<and> activate plain_loads brian (generate_activation_token plain_dumps bob 3600)
     = Inr (False, brian)
   \<and> activate plain_loads brian Garbled = Inr (False, brian)"
proof -
  have h1: "plain_loads (generate_activation_token plain_dumps brian 3600)
      = Inr (JDict [(''confirm'', id_json (user_id brian))])"
    by (simp add: generate_activation_token_def plain_dumps_def)
  have h2: "plain_loads (generate_activation_token plain_dumps bob 3600)
      = Inr (JDict [(''confirm'', id_json (user_id bob))])"
    by (simp add: generate_activation_token_def plain_dumps_def)
  have h3: "user_id bob \<noteq> user_id brian"
    by (simp add: brian_def bob_def)
  have h4: "plain_loads Garbled = Inl BadData"
    by simp
  from activate_token [of plain_loads plain_dumps brian 3600 bob Garbled] h1 h2 h3 h4
  show ?thesis
    by blast
qed

text \<open>
  Claim C4 fails on the code. \<open>verify_auth_token\<close> catches \<open>BadData\<close> only; on a token
  that the serializer accepts and whose payload is a dictionary without the key \<open>id\<close>,
  the subscript \<^verbatim>\<open>data["id"]\<close> raises \<open>KeyError\<close>, which reaches the caller. \<open>activate\<close>
  reads its key with \<^verbatim>\<open>data.get\<close> and has no such failure. The instance below is the
  activation token of a stored user, presented as an authentication token.
\<close>

theorem verify_auth_token_KeyError:
  "loads token = Inr (JDict d) \<Longrightarrow> map_of d ''id'' = None \<Longrightarrow>
   verify_auth_token loads query_get token = Inl (KeyError ''id'')"
  by (simp add: verify_auth_token_def)

theorem verify_auth_token_KeyError_witness:
  "verify_auth_token plain_loads (plain_query_get [brian, bob])
     (generate_activation_token plain_dumps brian 3600)
   = Inl (KeyError ''id'')"
  by (rule verify_auth_token_KeyError [where d = "[(''confirm'', JInt 1)]"])
    (simp_all add: generate_activation_token_def plain_dumps_def id_json_def brian_def)

text \<open>
  Claim C9 fails on the code. \<open>seen\<close> assigns the attribute \<open>_last_seen\<close>, not the column
  \<open>last_seen\<close>: for every stored user (a user whose primary key has a row in the table),
  the column keeps its value in the object and in every row of the table that has the
  user's key, whatever the time of the call.
\<close>

theorem seen_leaves_last_seen:
  assumes "user_id self \<noteq> None"
    and "user_id self \<in> set (map user_id tbl)"
  shows "last_seen (snd (seen now tbl self)) = last_seen self
    \<and> underscore_last_seen (snd (seen now tbl self)) = Some now
    \<and> map last_seen (fst (seen now tbl self))
        = map (\<lambda>row. if user_id row = user_id self then last_seen self else last_seen row) tbl"
proof -
  from assms(1) obtain i where i: "user_id self = Some i"
    by auto
  with assms(2) have stored: "Some i \<in> set (map user_id tbl)"
    by simp
  have "seen now tbl self =
      (map (\<lambda>row. if user_id row = Some i
                   then row_of (self\<lparr>underscore_last_seen := Some now\<rparr>) else row) tbl,
       self\<lparr>underscore_last_seen := Some now\<rparr>)"
    using i stored by (simp add: seen_def session_commit_def)
  then show ?thesis
    using i by (simp add: row_of_def if_distrib [of last_seen] cong: if_cong)
qed

theorem seen_leaves_last_seen_witness:
  "last_seen (snd (seen 200 [brian, bob] brian)) = Some 100
   \<and> map last_seen (fst (seen 200 [brian, bob] brian)) = [Some 100, Some 100]"
proof -
  have h: "user_id brian \<noteq> None"
    by (simp add: brian_def)
  have stored: "user_id brian \<in> set (map user_id [brian, bob])"
    by simp
  have "last_seen brian = Some 100" and "last_seen bob = Some 100"
    by (simp_all add: brian_def bob_def)
  with seen_leaves_last_seen [OF h stored, of 200] show ?thesis
    by simp
qed

section \<open>Properties of comments\<close>

lemma edit_time_set_body_Some:
  "edit_time c = Some t \<Longrightarrow> edit_time (set_body clean linkify now c v) = Some t"
  by (simp add: set_body_def on_change_body_def)

lemma edit_time_insert_comment: "edit_time (insert_comment t c) = edit_time c"
  by (simp add: insert_comment_def)

lemma edit_time_foldl_set_body:
  "edit_time c = Some t \<Longrightarrow>
   edit_time (foldl (\<lambda>c e. set_body clean linkify (fst e) c (snd e)) c edits) = Some t"
  by (induction edits arbitrary: c) (simp_all add: edit_time_set_body_Some)

lemma edit_time_Comment_init: "edit_time (Comment_init clean linkify now v) = Some now"
  by (simp add: Comment_init_def set_body_def on_change_body_def)

text \<open>
  Claim C2 fails on the code. \<open>on_change_body\<close> assigns \<open>edit_time\<close> while it has no
  value, which is at the first assignment of the body, in the constructor; so a new
  comment has \<open>edit_time\<close> set to the time of its construction, and after its
  insertion no change of the body, nor any sequence of changes (each with its time
  and new body), gives \<open>edit_time\<close> another value.
\<close>

theorem edit_time_is_construction_time:
  "edit_time (Comment_init clean linkify now v) = Some now
   \<and> edit_time (set_body clean linkify later
        (insert_comment inserted (Comment_init clean linkify now v)) w) = Some now
   \<and> edit_time (foldl (\<lambda>c e. set_body clean linkify (fst e) c (snd e))
        (insert_comment inserted (Comment_init clean linkify now v)) edits) = Some now"
proof -
  have created: "edit_time (insert_comment inserted (Comment_init clean linkify now v)) = Some now"
    by (simp add: edit_time_insert_comment edit_time_Comment_init)
  show ?thesis
    using created
    by (simp add: edit_time_Comment_init edit_time_set_body_Some edit_time_foldl_set_body)
qed

text \<open>
  The same on a concrete comment: created at time 10, it has \<open>edit_time\<close> 10, not none;
  after its insertion at time 11 and a change of its body at time 20, \<open>edit_time\<close> is
  still 10, which is neither the time of the change nor at least the creation
  timestamp 11.
\<close>

lemma edit_time_first_second:
  "edit_time (Comment_init id id 10 ''first'') = Some 10
   \<and> edit_time (Comment_init id id 10 ''first'') \<noteq> None
   \<and> edit_time (set_body id id 20 (insert_comment 11 (Comment_init id id 10 ''first'')) ''second'')
       = Some 10
   \<and> edit_time (set_body id id 20 (insert_comment 11 (Comment_init id id 10 ''first'')) ''second'')
       \<noteq> Some 20
   \<and> timestamp (set_body id id 20 (insert_comment 11 (Comment_init id id 10 ''first'')) ''second'')
       = Some 11"
  by (simp add: set_body_def on_change_body_def Comment_init_def insert_comment_def)

end
